theory Spec2Isabelle
  imports Main
begin

section \<open>Python values\<close>

text \<open>
  Both functions of \<^verbatim>\<open>data_retrieval.py\<close> take untyped dictionaries. The values
  they can hold are modelled by the JSON-like universe below: \<^verbatim>\<open>None\<close>, booleans,
  integers, strings, lists and dictionaries with string keys. Floats, tuples, sets and
  user-defined objects are outside the model. A dictionary nested in a value is an
  association list in insertion order, read with first-match lookup; a well-formed one
  has distinct keys.
\<close>

datatype pyval =
    PNone
  | PBool bool
  | PInt int
  | PStr string
  | PList "pyval list"
  | PDict "(string \<times> pyval) list"

type_synonym pydict = "(string \<times> pyval) list"

text \<open>The local artist record is the dictionary that the merge mutates.\<close>

type_synonym artist = "string \<rightharpoonup> pyval"

datatype py_error = KeyError | AttributeError | TypeError

text \<open>
  \<^verbatim>\<open>update_artist_from_mb\<close> mutates \<^verbatim>\<open>artist\<close> in place, so the caller
  sees the writes made before an exception as well. Both outcomes carry the dictionary.
\<close>

datatype outcome = Returned artist | Raised py_error artist

fun state_of :: "outcome \<Rightarrow> artist" where
  "state_of (Returned a) = a"
| "state_of (Raised e a) = a"

fun then_do :: "outcome \<Rightarrow> (artist \<Rightarrow> outcome) \<Rightarrow> outcome" where
  "then_do (Returned a) f = f a"
| "then_do (Raised e a) f = Raised e a"

subsection \<open>Built-in operations used by the module\<close>

text \<open>\<^verbatim>\<open>artist.get(key)\<close>: \<^verbatim>\<open>None\<close> when the key is missing.\<close>

definition py_get :: "artist \<Rightarrow> string \<Rightarrow> pyval" where
  "py_get a k = (case a k of None \<Rightarrow> PNone | Some v \<Rightarrow> v)"

text \<open>\<^verbatim>\<open>d.get(key, default)\<close> and \<^verbatim>\<open>d.get(key)\<close> on a dictionary.\<close>

definition dict_get_default :: "pydict \<Rightarrow> string \<Rightarrow> pyval \<Rightarrow> pyval" where
  "dict_get_default d k dflt = (case map_of d k of None \<Rightarrow> dflt | Some v \<Rightarrow> v)"

definition dict_get :: "pydict \<Rightarrow> string \<Rightarrow> pyval" where
  "dict_get d k = dict_get_default d k PNone"

text \<open>
  \<^verbatim>\<open>v.get(key, default)\<close> on an arbitrary value: only a dictionary has the method,
  any other value raises \<^verbatim>\<open>AttributeError\<close>.
\<close>

definition attr_get_default :: "pyval \<Rightarrow> string \<Rightarrow> pyval \<Rightarrow> py_error + pyval" where
  "attr_get_default v k dflt =
     (case v of PDict d \<Rightarrow> Inr (dict_get_default d k dflt) | _ \<Rightarrow> Inl AttributeError)"

definition attr_get :: "pyval \<Rightarrow> string \<Rightarrow> py_error + pyval" where
  "attr_get v k = attr_get_default v k PNone"

text \<open>
  \<^verbatim>\<open>v[key]\<close> with a string key: a dictionary raises \<^verbatim>\<open>KeyError\<close> on a missing
  key; strings and lists want integer indices and the remaining values are not
  subscriptable, which is a \<^verbatim>\<open>TypeError\<close> in each case.
\<close>

definition py_subscript :: "pyval \<Rightarrow> string \<Rightarrow> py_error + pyval" where
  "py_subscript v k =
     (case v of
        PDict d \<Rightarrow> (case map_of d k of None \<Rightarrow> Inl KeyError | Some x \<Rightarrow> Inr x)
      | _ \<Rightarrow> Inl TypeError)"

text \<open>Truth value of a value in an \<^verbatim>\<open>if\<close>.\<close>

fun py_truthy :: "pyval \<Rightarrow> bool" where
  "py_truthy PNone = False"
| "py_truthy (PBool b) = b"
| "py_truthy (PInt n) = (n \<noteq> 0)"
| "py_truthy (PStr s) = (s \<noteq> [])"
| "py_truthy (PList xs) = (xs \<noteq> [])"
| "py_truthy (PDict d) = (d \<noteq> [])"

text \<open>
  Iteration (\<^verbatim>\<open>for x in v\<close>): a list yields its elements, a dictionary its keys, a
  string its characters; the other values are not iterable.
\<close>

fun py_iter :: "pyval \<Rightarrow> py_error + pyval list" where
  "py_iter (PList xs) = Inr xs"
| "py_iter (PDict d) = Inr (map (\<lambda>kv. PStr (fst kv)) d)"
| "py_iter (PStr s) = Inr (map (\<lambda>c. PStr [c]) s)"
| "py_iter v = Inl TypeError"

text \<open>
  \<^verbatim>\<open>str.lower()\<close>. Strings are byte sequences here and only the ASCII letters are
  mapped. The module compares the result with \<^verbatim>\<open>"male"\<close> and \<^verbatim>\<open>"female"\<close> only,
  and no character outside ASCII lower-cases to one of the letters of these two words,
  so the comparison has the same result as in Python.
\<close>

definition lower_char :: "char \<Rightarrow> char" where
  "lower_char c =
     (case map_of (zip ''ABCDEFGHIJKLMNOPQRSTUVWXYZ'' ''abcdefghijklmnopqrstuvwxyz'') c of
        None \<Rightarrow> c
      | Some l \<Rightarrow> l)"

definition lower :: "string \<Rightarrow> string" where
  "lower s = map lower_char s"

text \<open>\<^verbatim>\<open>s.startswith(p)\<close>.\<close>

definition startswith :: "string \<Rightarrow> string \<Rightarrow> bool" where
  "startswith s p = (take (length p) s = p)"

text \<open>\<^verbatim>\<open>sep.join(xs)\<close> on strings.\<close>

fun join :: "string \<Rightarrow> string list \<Rightarrow> string" where
  "join sep [] = []"
| "join sep [x] = x"
| "join sep (x # y # ys) = x @ sep @ join sep (y # ys)"

text \<open>
  \<^verbatim>\<open>sep.join(vs)\<close> on a list of arbitrary values: every item must be a string,
  otherwise \<^verbatim>\<open>TypeError\<close>.
\<close>

fun as_strings :: "pyval list \<Rightarrow> py_error + string list" where
  "as_strings [] = Inr []"
| "as_strings (PStr s # vs) =
     (case as_strings vs of Inl e \<Rightarrow> Inl e | Inr ss \<Rightarrow> Inr (s # ss))"
| "as_strings (v # vs) = Inl TypeError"

definition py_join :: "string \<Rightarrow> pyval list \<Rightarrow> py_error + string" where
  "py_join sep vs = (case as_strings vs of Inl e \<Rightarrow> Inl e | Inr ss \<Rightarrow> Inr (join sep ss))"

text \<open>
  \<^verbatim>\<open>x in (None, "", [])\<close>. Membership in a tuple compares with \<^verbatim>\<open>==\<close>; in the
  universe above only \<^verbatim>\<open>None\<close> equals \<^verbatim>\<open>None\<close>, only the empty string equals
  \<^verbatim>\<open>""\<close> and only the empty list equals \<^verbatim>\<open>[]\<close>.
\<close>

definition in_empties :: "pyval \<Rightarrow> bool" where
  "in_empties v = (v = PNone \<or> v = PStr [] \<or> v = PList [])"

text \<open>
  \<^verbatim>\<open>x in ("false", False, None)\<close>. The integer \<^verbatim>\<open>0\<close> is a member too, because
  \<^verbatim>\<open>0 == False\<close> in Python.
\<close>

definition in_still_active :: "pyval \<Rightarrow> bool" where
  "in_still_active v = (v = PStr ''false'' \<or> v = PBool False \<or> v = PInt 0 \<or> v = PNone)"

section \<open>The query builder\<close>

definition countries_map :: "string \<rightharpoonup> string" where
  "countries_map = [''Italia'' \<mapsto> ''IT'']"

text \<open>
  \<^verbatim>\<open>countries_map[country]\<close>. A list or a dictionary is unhashable and raises
  \<^verbatim>\<open>TypeError\<close>; every other value that is not a key raises \<^verbatim>\<open>KeyError\<close> (no
  key of the table is a number, so \<^verbatim>\<open>True\<close>, \<^verbatim>\<open>1\<close> and the like are not found).
\<close>

fun countries_lookup :: "pyval \<Rightarrow> py_error + string" where
  "countries_lookup (PStr s) = (case countries_map s of None \<Rightarrow> Inl KeyError | Some c \<Rightarrow> Inr c)"
| "countries_lookup (PList xs) = Inl TypeError"
| "countries_lookup (PDict d) = Inl TypeError"
| "countries_lookup v = Inl KeyError"

text \<open>
  The replacement field \<^verbatim>\<open>{name}\<close> of an f-string inserts a string as it is. For any
  other value it inserts Python's built-in text conversion, which is not part of this
  module: it is the parameter \<open>conv\<close>.
\<close>

definition fmt :: "(pyval \<Rightarrow> string) \<Rightarrow> pyval \<Rightarrow> string" where
  "fmt conv v = (case v of PStr s \<Rightarrow> s | _ \<Rightarrow> conv v)"

text \<open>The list \<^verbatim>\<open>clauses\<close> at the end of \<^verbatim>\<open>build_query\<close>, or the exception raised.\<close>

definition build_clauses :: "(pyval \<Rightarrow> string) \<Rightarrow> artist \<Rightarrow> py_error + string list" where
  "build_clauses conv artist =
     (let clauses = [];
          clauses = (if py_truthy (py_get artist ''name'')
                     then clauses @ [''name:\"'' @ fmt conv (py_get artist ''name'') @ ''\"'']
                     else clauses)
      in if py_truthy (py_get artist ''country'')
         then (case countries_lookup (py_get artist ''country'') of
                 Inl e \<Rightarrow> Inl e
               | Inr country \<Rightarrow> Inr (clauses @ [''country:\"'' @ country @ ''\"'']))
         else Inr (clauses @ [''country:\"IT\"'']))"

definition build_query :: "(pyval \<Rightarrow> string) \<Rightarrow> artist \<Rightarrow> py_error + string" where
  "build_query conv artist =
     (case build_clauses conv artist of
        Inl e \<Rightarrow> Inl e
      | Inr clauses \<Rightarrow> Inr (join '' AND '' clauses))"

section \<open>The record merger\<close>

text \<open>
  The inner function \<^verbatim>\<open>set_field\<close> closes over \<^verbatim>\<open>overwrite\<close> and
  \<^verbatim>\<open>artist\<close>; here both are arguments and the updated dictionary is returned.
\<close>

definition set_field :: "bool \<Rightarrow> string \<Rightarrow> pyval \<Rightarrow> artist \<Rightarrow> artist" where
  "set_field overwrite key val artist =
     (if val = PNone then artist
      else if overwrite \<or> in_empties (py_get artist key) then artist(key \<mapsto> val)
      else artist)"

text \<open>Basic fields.\<close>

definition basic_fields :: "bool \<Rightarrow> pydict \<Rightarrow> artist \<Rightarrow> outcome" where
  "basic_fields overwrite mb artist =
     Returned (set_field overwrite ''name'' (dict_get mb ''name'')
                (set_field overwrite ''id_author'' (dict_get mb ''id'') artist))"

text \<open>
  Gender normalization. \<^verbatim>\<open>gender.lower()\<close> exists on strings only; a truthy value
  of another type raises \<^verbatim>\<open>AttributeError\<close>.
\<close>

definition normalized :: "string \<Rightarrow> pyval" where
  "normalized gender =
     (if lower gender = ''male'' then PStr ''M''
      else if lower gender = ''female'' then PStr ''F''
      else PNone)"

definition gender_field :: "bool \<Rightarrow> pydict \<Rightarrow> artist \<Rightarrow> outcome" where
  "gender_field overwrite mb artist =
     (let gender = dict_get mb ''gender'' in
      if py_truthy gender
      then (case gender of
              PStr g \<Rightarrow> Returned (set_field overwrite ''gender'' (normalized g) artist)
            | _ \<Rightarrow> Raised AttributeError artist)
      else Returned artist)"

text \<open>
  Life span. \<^verbatim>\<open>ls.get("begin")\<close> is evaluated before the first write of this part,
  so a value of \<^verbatim>\<open>"life-span"\<close> that is not a dictionary raises before any of the
  three fields is touched.
\<close>

definition life_span :: "bool \<Rightarrow> pydict \<Rightarrow> artist \<Rightarrow> outcome" where
  "life_span overwrite mb artist =
     (let ls = dict_get_default mb ''life-span'' (PDict []) in
      case attr_get ls ''begin'' of
        Inl e \<Rightarrow> Raised e artist
      | Inr begun \<Rightarrow>
          (let artist = set_field overwrite ''birth_date'' begun artist;
               artist = set_field overwrite ''active_start'' begun artist
           in case attr_get ls ''ended'' of
                Inl e \<Rightarrow> Raised e artist
              | Inr ended \<Rightarrow>
                  if \<not> in_still_active ended
                  then Returned (set_field overwrite ''active_end'' ended artist)
                  else Returned artist))"

text \<open>Area (country) and birthplace (begin-area).\<close>

definition area :: "bool \<Rightarrow> pydict \<Rightarrow> artist \<Rightarrow> outcome" where
  "area overwrite mb artist =
     (case map_of mb ''area'' of
        None \<Rightarrow> Returned artist
      | Some a \<Rightarrow>
          (case attr_get a ''name'' of
             Inl e \<Rightarrow> Raised e artist
           | Inr name \<Rightarrow> Returned (set_field overwrite ''country'' name artist)))"

definition begin_area :: "bool \<Rightarrow> pydict \<Rightarrow> artist \<Rightarrow> outcome" where
  "begin_area overwrite mb artist =
     (case map_of mb ''begin-area'' of
        None \<Rightarrow> Returned artist
      | Some a \<Rightarrow>
          (case attr_get a ''name'' of
             Inl e \<Rightarrow> Raised e artist
           | Inr name \<Rightarrow> Returned (set_field overwrite ''birth_place'' name artist)))"

text \<open>
  Tags. The comprehension \<^verbatim>\<open>[t["name"] for t in mb["tag-list"]]\<close> subscripts each
  item in turn and stops at the first exception.
\<close>

fun tag_names :: "pyval list \<Rightarrow> py_error + pyval list" where
  "tag_names [] = Inr []"
| "tag_names (t # ts) =
     (case py_subscript t ''name'' of
        Inl e \<Rightarrow> Inl e
      | Inr n \<Rightarrow> (case tag_names ts of Inl e \<Rightarrow> Inl e | Inr ns \<Rightarrow> Inr (n # ns)))"

definition description :: "bool \<Rightarrow> pydict \<Rightarrow> artist \<Rightarrow> outcome" where
  "description overwrite mb artist =
     (case map_of mb ''tag-list'' of
        None \<Rightarrow> Returned artist
      | Some tag_list \<Rightarrow>
          (case py_iter tag_list of
             Inl e \<Rightarrow> Raised e artist
           | Inr items \<Rightarrow>
               (case tag_names items of
                  Inl e \<Rightarrow> Raised e artist
                | Inr tags \<Rightarrow>
                    if tags \<noteq> []
                    then (case py_join '', '' tags of
                            Inl e \<Rightarrow> Raised e artist
                          | Inr d \<Rightarrow> Returned (set_field overwrite ''description'' (PStr d) artist))
                    else Returned artist)))"

text \<open>
  Aliases. Each pass of the loop reads \<^verbatim>\<open>a.get("locale", "")\<close>, which needs a
  dictionary, and calls \<^verbatim>\<open>startswith\<close> on the result, which needs a string.
\<close>

fun alias_loop :: "bool \<Rightarrow> pyval list \<Rightarrow> artist \<Rightarrow> outcome" where
  "alias_loop overwrite [] artist = Returned artist"
| "alias_loop overwrite (a # rest) artist =
     (case attr_get_default a ''locale'' (PStr []) of
        Inl e \<Rightarrow> Raised e artist
      | Inr (PStr locale) \<Rightarrow>
          alias_loop overwrite rest
            (if startswith locale ''it''
             then set_field overwrite ''nationality'' (PStr ''Italia'') artist
             else artist)
      | Inr v \<Rightarrow> Raised AttributeError artist)"

definition nationality :: "bool \<Rightarrow> pydict \<Rightarrow> artist \<Rightarrow> outcome" where
  "nationality overwrite mb artist =
     (case py_iter (dict_get_default mb ''alias-list'' (PList [])) of
        Inl e \<Rightarrow> Raised e artist
      | Inr items \<Rightarrow> alias_loop overwrite items artist)"

text \<open>The whole function: the parts in the order of the source.\<close>

definition update_artist_from_mb :: "artist \<Rightarrow> pydict \<Rightarrow> bool \<Rightarrow> outcome" where
  "update_artist_from_mb artist mb overwrite =
     then_do (then_do (then_do (then_do (then_do (then_do
       (basic_fields overwrite mb artist)
       (gender_field overwrite mb))
       (life_span overwrite mb))
       (area overwrite mb))
       (begin_area overwrite mb))
       (description overwrite mb))
       (nationality overwrite mb)"

section \<open>Notions of the specification\<close>

text \<open>
  A clause of the query is a country clause when it has the form
  \<^verbatim>\<open>country:"..."\<close>.
\<close>

definition is_country_clause :: "string \<Rightarrow> bool" where
  "is_country_clause c = startswith c ''country:\"''"

text \<open>
  A value that can be used as a dictionary key. Lists and dictionaries are unhashable;
  the specification's local record holds strings or null, which are hashable.
\<close>

fun hashable :: "pyval \<Rightarrow> bool" where
  "hashable (PList xs) = False"
| "hashable (PDict d) = False"
| "hashable v = True"

definition is_country_key :: "pyval \<Rightarrow> bool" where
  "is_country_key v = (case v of PStr s \<Rightarrow> countries_map s \<noteq> None | _ \<Rightarrow> False)"

text \<open>An alias entry whose locale is a string that starts with \<^verbatim>\<open>it\<close>.\<close>

definition it_alias :: "pyval \<Rightarrow> bool" where
  "it_alias a =
     (case attr_get_default a ''locale'' (PStr []) of
        Inr (PStr locale) \<Rightarrow> startswith locale ''it''
      | _ \<Rightarrow> False)"

definition has_it_alias :: "pydict \<Rightarrow> bool" where
  "has_it_alias mb =
     (case py_iter (dict_get_default mb ''alias-list'' (PList [])) of
        Inr items \<Rightarrow> list_ex it_alias items
      | Inl e \<Rightarrow> False)"

text \<open>
  The candidate value of a local field: the value that the source derives from the
  external record and hands to \<^verbatim>\<open>set_field\<close> for that field, \<open>PNone\<close> when
  there is none (the field has no rule, the external key is missing, the transform
  yields nothing, or its evaluation raises).
\<close>

definition life_span_of :: "pydict \<Rightarrow> pydict option" where
  "life_span_of mb =
     (case dict_get_default mb ''life-span'' (PDict []) of PDict ls \<Rightarrow> Some ls | _ \<Rightarrow> None)"

definition tags_text :: "pydict \<Rightarrow> pyval" where
  "tags_text mb =
     (case map_of mb ''tag-list'' of
        None \<Rightarrow> PNone
      | Some tag_list \<Rightarrow>
          (case py_iter tag_list of
             Inl e \<Rightarrow> PNone
           | Inr items \<Rightarrow>
               (case tag_names items of
                  Inl e \<Rightarrow> PNone
                | Inr tags \<Rightarrow>
                    if tags \<noteq> []
                    then (case py_join '', '' tags of Inl e \<Rightarrow> PNone | Inr d \<Rightarrow> PStr d)
                    else PNone)))"

definition candidate :: "pydict \<Rightarrow> string \<Rightarrow> pyval" where
  "candidate mb key =
     (if key = ''id_author'' then dict_get mb ''id''
      else if key = ''name'' then dict_get mb ''name''
      else if key = ''gender'' then
        (case dict_get mb ''gender'' of PStr g \<Rightarrow> normalized g | _ \<Rightarrow> PNone)
      else if key = ''birth_date'' \<or> key = ''active_start'' then
        (case life_span_of mb of Some ls \<Rightarrow> dict_get ls ''begin'' | None \<Rightarrow> PNone)
      else if key = ''active_end'' then
        (case life_span_of mb of
           Some ls \<Rightarrow>
             if in_still_active (dict_get ls ''ended'') then PNone else dict_get ls ''ended''
         | None \<Rightarrow> PNone)
      else if key = ''country'' then
        (case map_of mb ''area'' of Some (PDict a) \<Rightarrow> dict_get a ''name'' | _ \<Rightarrow> PNone)
      else if key = ''birth_place'' then
        (case map_of mb ''begin-area'' of Some (PDict a) \<Rightarrow> dict_get a ''name'' | _ \<Rightarrow> PNone)
      else if key = ''description'' then tags_text mb
      else if key = ''nationality'' then
        (if has_it_alias mb then PStr ''Italia'' else PNone)
      else PNone)"

text \<open>The field-set policy of the specification, for one field.\<close>

definition policy_permits :: "bool \<Rightarrow> artist \<Rightarrow> string \<Rightarrow> bool" where
  "policy_permits overwrite artist key = (overwrite \<or> in_empties (py_get artist key))"

section \<open>The merge as a sequence of writes\<close>

text \<open>
  For the proofs the merge is unrolled into the list of its effects in program order:
  a call of \<^verbatim>\<open>set_field\<close>, or an exception. The list depends on the external
  record only. \<open>run\<close> replays such a list on a local record.
\<close>

datatype action = Write string pyval | Fail py_error

fun run :: "bool \<Rightarrow> action list \<Rightarrow> artist \<Rightarrow> outcome" where
  "run overwrite [] a = Returned a"
| "run overwrite (Write k v # ws) a = run overwrite ws (set_field overwrite k v a)"
| "run overwrite (Fail e # ws) a = Raised e a"

text \<open>The writes that are reached, and how a replay ends when no write changes anything.\<close>

fun performed :: "action list \<Rightarrow> (string \<times> pyval) list" where
  "performed [] = []"
| "performed (Write k v # ws) = (k, v) # performed ws"
| "performed (Fail e # ws) = []"

fun finish :: "action list \<Rightarrow> artist \<Rightarrow> outcome" where
  "finish [] a = Returned a"
| "finish (Write k v # ws) a = finish ws a"
| "finish (Fail e # ws) a = Raised e a"

definition plan_basic :: "pydict \<Rightarrow> action list" where
  "plan_basic mb = [Write ''id_author'' (dict_get mb ''id''), Write ''name'' (dict_get mb ''name'')]"

definition plan_gender :: "pydict \<Rightarrow> action list" where
  "plan_gender mb =
     (let gender = dict_get mb ''gender'' in
      if py_truthy gender
      then (case gender of PStr g \<Rightarrow> [Write ''gender'' (normalized g)] | _ \<Rightarrow> [Fail AttributeError])
      else [])"

definition plan_life_span :: "pydict \<Rightarrow> action list" where
  "plan_life_span mb =
     (case life_span_of mb of
        None \<Rightarrow> [Fail AttributeError]
      | Some ls \<Rightarrow>
          [Write ''birth_date'' (dict_get ls ''begin''), Write ''active_start'' (dict_get ls ''begin'')]
          @ (if \<not> in_still_active (dict_get ls ''ended'')
             then [Write ''active_end'' (dict_get ls ''ended'')] else []))"

definition plan_area :: "pydict \<Rightarrow> action list" where
  "plan_area mb =
     (case map_of mb ''area'' of
        None \<Rightarrow> []
      | Some (PDict a) \<Rightarrow> [Write ''country'' (dict_get a ''name'')]
      | Some v \<Rightarrow> [Fail AttributeError])"

definition plan_begin_area :: "pydict \<Rightarrow> action list" where
  "plan_begin_area mb =
     (case map_of mb ''begin-area'' of
        None \<Rightarrow> []
      | Some (PDict a) \<Rightarrow> [Write ''birth_place'' (dict_get a ''name'')]
      | Some v \<Rightarrow> [Fail AttributeError])"

definition plan_description :: "pydict \<Rightarrow> action list" where
  "plan_description mb =
     (case map_of mb ''tag-list'' of
        None \<Rightarrow> []
      | Some tag_list \<Rightarrow>
          (case py_iter tag_list of
             Inl e \<Rightarrow> [Fail e]
           | Inr items \<Rightarrow>
               (case tag_names items of
                  Inl e \<Rightarrow> [Fail e]
                | Inr tags \<Rightarrow>
                    if tags \<noteq> []
                    then (case py_join '', '' tags of
                            Inl e \<Rightarrow> [Fail e]
                          | Inr d \<Rightarrow> [Write ''description'' (PStr d)])
                    else [])))"

fun plan_aliases :: "pyval list \<Rightarrow> action list" where
  "plan_aliases [] = []"
| "plan_aliases (a # rest) =
     (case attr_get_default a ''locale'' (PStr []) of
        Inl e \<Rightarrow> [Fail e]
      | Inr (PStr locale) \<Rightarrow>
          (if startswith locale ''it'' then [Write ''nationality'' (PStr ''Italia'')] else [])
          @ plan_aliases rest
      | Inr v \<Rightarrow> [Fail AttributeError])"

definition plan_nationality :: "pydict \<Rightarrow> action list" where
  "plan_nationality mb =
     (case py_iter (dict_get_default mb ''alias-list'' (PList [])) of
        Inl e \<Rightarrow> [Fail e]
      | Inr items \<Rightarrow> plan_aliases items)"

definition plan :: "pydict \<Rightarrow> action list" where
  "plan mb =
     plan_basic mb @ plan_gender mb @ plan_life_span mb @ plan_area mb
     @ plan_begin_area mb @ plan_description mb @ plan_nationality mb"

text \<open>
  A set of writes is settled in a record when replaying any of them without overwrite
  leaves the record as it is; it is functional when it has one value for each key.
\<close>

definition settled :: "(string \<times> pyval) set \<Rightarrow> artist \<Rightarrow> bool" where
  "settled W a = (\<forall>(k, v) \<in> W. set_field False k v a = a)"

definition functional :: "(string \<times> pyval) set \<Rightarrow> bool" where
  "functional W = (\<forall>k v v'. (k, v) \<in> W \<longrightarrow> (k, v') \<in> W \<longrightarrow> v = v')"

section \<open>Properties of the query builder\<close>

lemma countries_lookup_hashable:
  "hashable v \<Longrightarrow> countries_lookup v = (if is_country_key v then Inr ''IT'' else Inl KeyError)"
  by (cases v) (simp_all add: is_country_key_def countries_map_def)

lemma countries_lookup_Inr: "countries_lookup v = Inr c \<Longrightarrow> c = ''IT''"
  by (cases v) (simp_all add: countries_map_def split: option.splits if_splits)

lemma build_clauses_shape:
  assumes "build_clauses conv artist = Inr cs"
  shows "cs = (if py_truthy (py_get artist ''name'')
               then [''name:\"'' @ fmt conv (py_get artist ''name'') @ ''\"''] else [])
              @ [''country:\"IT\"'']"
  using assms countries_lookup_Inr [of "py_get artist ''country''"]
  by (auto simp add: build_clauses_def Let_def split: sum.splits if_splits)

text \<open>
  Claim C3. \<^verbatim>\<open>build_query\<close> ends with a \<^verbatim>\<open>KeyError\<close> exactly when the country
  of the local record is present (truthy: for a string, not empty) and is not a key of
  \<^verbatim>\<open>countries_map\<close>; in every other case it returns a query. The exception is the
  result of \<^verbatim>\<open>build_query\<close> itself: nothing in the function catches it. The country
  is taken to be a hashable value, as the strings and nulls of the local record are.
\<close>

theorem build_query_key_error:
  assumes "hashable (py_get artist ''country'')"
  shows "((build_query conv artist = Inl KeyError) =
            (py_truthy (py_get artist ''country'') \<and> \<not> is_country_key (py_get artist ''country'')))
         \<and> ((\<exists>q. build_query conv artist = Inr q) =
            (\<not> py_truthy (py_get artist ''country'') \<or> is_country_key (py_get artist ''country'')))"
  using countries_lookup_hashable [OF assms]
  by (simp add: build_query_def build_clauses_def Let_def)

theorem build_query_key_error_witness:
  "hashable (py_get [''name'' \<mapsto> PStr ''Verdi'', ''country'' \<mapsto> PStr ''Francia''] ''country'')
   \<and> build_query (\<lambda>v. []) [''name'' \<mapsto> PStr ''Verdi'', ''country'' \<mapsto> PStr ''Francia'']
       = Inl KeyError
   \<and> hashable (py_get [''country'' \<mapsto> PStr ''Italia''] ''country'')
   \<and> (\<exists>q. build_query (\<lambda>v. []) [''country'' \<mapsto> PStr ''Italia''] = Inr q)"
  using build_query_key_error
          [of "[''name'' \<mapsto> PStr ''Verdi'', ''country'' \<mapsto> PStr ''Francia'']" "\<lambda>v. []"]
        build_query_key_error [of "[''country'' \<mapsto> PStr ''Italia'']" "\<lambda>v. []"]
  by (simp add: py_get_def is_country_key_def countries_map_def)

text \<open>
  Claim C8. The query is the name clause, when the name is present, followed by the
  country clause, joined by \<^verbatim>\<open>" AND "\<close>; the country clause is \<^verbatim>\<open>country:"IT"\<close>
  when the country is absent. The three calls of the specification give the stated
  results.
\<close>

theorem build_query_clauses:
  "build_query conv artist =
     (let name_part = (if py_truthy (py_get artist ''name'')
                       then ''name:\"'' @ fmt conv (py_get artist ''name'') @ ''\" AND '' else [])
      in if py_truthy (py_get artist ''country'')
         then (case countries_lookup (py_get artist ''country'') of
                 Inl e \<Rightarrow> Inl e
               | Inr code \<Rightarrow> Inr (name_part @ ''country:\"'' @ code @ ''\"''))
         else Inr (name_part @ ''country:\"IT\"''))
   \<and> build_query conv [''name'' \<mapsto> PStr ''Verdi'', ''country'' \<mapsto> PStr ''Italia'']
       = Inr ''name:\"Verdi\" AND country:\"IT\"''
   \<and> build_query conv [''name'' \<mapsto> PStr ''Verdi''] = Inr ''name:\"Verdi\" AND country:\"IT\"''
   \<and> build_query conv [''name'' \<mapsto> PStr ''Verdi'', ''country'' \<mapsto> PStr ''France'']
       = Inl KeyError"
  by (simp add: build_query_def build_clauses_def Let_def py_get_def fmt_def countries_map_def
      split: sum.splits)

theorem build_query_clauses_witness:
  "build_query (\<lambda>v. []) [''country'' \<mapsto> PStr ''Italia''] = Inr ''country:\"IT\"''
   \<and> build_query (\<lambda>v. []) [''name'' \<mapsto> PStr ''Verdi''] = Inr ''name:\"Verdi\" AND country:\"IT\"''"
  using build_query_clauses [of "\<lambda>v. []" "[''country'' \<mapsto> PStr ''Italia'']"]
  by (simp add: py_get_def countries_map_def)

text \<open>
  Claim C10. A query that \<^verbatim>\<open>build_query\<close> returns is never empty: its list of
  clauses has exactly one country clause, which is the last clause and with which the
  query ends. The only code of the table being \<^verbatim>\<open>IT\<close>, that clause is always
  \<^verbatim>\<open>country:"IT"\<close>.
\<close>

theorem build_query_one_country_clause:
  assumes "build_query conv artist = Inr q"
  shows "q \<noteq> [] \<and>
         (\<exists>cs. build_clauses conv artist = Inr cs \<and> q = join '' AND '' cs \<and> cs \<noteq> [] \<and>
               length (filter is_country_clause cs) = 1 \<and> is_country_clause (last cs) \<and>
               last cs = ''country:\"IT\"'' \<and>
               (\<exists>front. q = front @ last cs))"
proof -
  from assms obtain cs where cs: "build_clauses conv artist = Inr cs" and q: "q = join '' AND '' cs"
    by (auto simp add: build_query_def split: sum.splits)
  note shape = build_clauses_shape [OF cs]
  show ?thesis
    using cs q shape by (auto simp add: is_country_clause_def startswith_def)
qed

theorem build_query_one_country_clause_witness:
  "build_query (\<lambda>v. []) [''name'' \<mapsto> PStr ''country:\"FR\"''] = Inr ''name:\"country:\"FR\"\" AND country:\"IT\"''
   \<and> (\<exists>cs. build_clauses (\<lambda>v. []) [''name'' \<mapsto> PStr ''country:\"FR\"''] = Inr cs
            \<and> length (filter is_country_clause cs) = 1 \<and> last cs = ''country:\"IT\"'')"
proof -
  have q: "build_query (\<lambda>v. []) [''name'' \<mapsto> PStr ''country:\"FR\"'']
             = Inr ''name:\"country:\"FR\"\" AND country:\"IT\"''"
    by (simp add: build_query_def build_clauses_def py_get_def fmt_def)
  from build_query_one_country_clause [OF q] q show ?thesis
    by blast
qed

section \<open>Properties of the record merger\<close>

lemmas merge_defs = update_artist_from_mb_def basic_fields_def gender_field_def life_span_def
  area_def begin_area_def description_def nationality_def set_field_def dict_get_def
  dict_get_default_def attr_get_def attr_get_default_def py_get_def in_empties_def
  in_still_active_def normalized_def lower_def lower_char_def startswith_def py_subscript_def
  py_join_def

subsection \<open>The merge replays its plan\<close>

lemma then_do_run: "then_do (run ow xs a) (run ow ys) = run ow (xs @ ys) a"
  by (induction ow xs a rule: run.induct) simp_all

lemma basic_fields_run: "basic_fields ow mb a = run ow (plan_basic mb) a"
  by (simp add: basic_fields_def plan_basic_def)

lemma gender_field_run: "gender_field ow mb a = run ow (plan_gender mb) a"
  by (simp add: gender_field_def plan_gender_def Let_def split: pyval.splits)

lemma life_span_run: "life_span ow mb a = run ow (plan_life_span mb) a"
  by (simp add: life_span_def plan_life_span_def life_span_of_def attr_get_def attr_get_default_def
      dict_get_def Let_def split: pyval.splits)

lemma area_run: "area ow mb a = run ow (plan_area mb) a"
  by (simp add: area_def plan_area_def attr_get_def attr_get_default_def dict_get_def
      split: option.splits pyval.splits)

lemma begin_area_run: "begin_area ow mb a = run ow (plan_begin_area mb) a"
  by (simp add: begin_area_def plan_begin_area_def attr_get_def attr_get_default_def dict_get_def
      split: option.splits pyval.splits)

lemma description_run: "description ow mb a = run ow (plan_description mb) a"
  by (simp add: description_def plan_description_def split: option.splits sum.splits)

lemma alias_loop_run: "alias_loop ow items a = run ow (plan_aliases items) a"
  by (induction items arbitrary: a) (simp_all split: sum.splits pyval.splits)

lemma nationality_run: "nationality ow mb a = run ow (plan_nationality mb) a"
  by (simp add: nationality_def plan_nationality_def alias_loop_run split: sum.splits)

lemma update_run: "update_artist_from_mb a mb ow = run ow (plan mb) a"
proof -
  have parts:
    "gender_field ow mb = run ow (plan_gender mb)"
    "life_span ow mb = run ow (plan_life_span mb)"
    "area ow mb = run ow (plan_area mb)"
    "begin_area ow mb = run ow (plan_begin_area mb)"
    "description ow mb = run ow (plan_description mb)"
    "nationality ow mb = run ow (plan_nationality mb)"
    by (rule ext, simp add: gender_field_run life_span_run area_run begin_area_run
        description_run nationality_run)+
  show ?thesis
    by (simp add: update_artist_from_mb_def plan_def basic_fields_run parts then_do_run)
qed

subsection \<open>Replaying a list of writes\<close>

lemma set_field_cases:
  "set_field ow k v a = a \<or> (v \<noteq> PNone \<and> (ow \<or> in_empties (py_get a k)) \<and> set_field ow k v a = a(k \<mapsto> v))"
  by (simp add: set_field_def)

lemma set_field_other: "k' \<noteq> k \<Longrightarrow> set_field ow k v a k' = a k'"
  by (simp add: set_field_def)

lemma py_get_set_field_other: "k' \<noteq> k \<Longrightarrow> py_get (set_field ow k v a) k' = py_get a k'"
  by (simp add: py_get_def set_field_other)

lemma run_policy:
  "state_of (run ow ws a) k = a k \<or>
   (\<exists>v. Write k v \<in> set ws \<and> v \<noteq> PNone \<and> (ow \<or> in_empties (py_get a k)) \<and>
        state_of (run ow ws a) k = Some v)"
proof (induction ow ws a rule: run.induct)
  case (1 ow a)
  then show ?case by simp
next
  case (2 ow k' v' ws a)
  show ?case
  proof (cases "k' = k")
    case False
    with 2 show ?thesis
      by (auto simp add: set_field_other py_get_set_field_other)
  next
    case True
    let ?a1 = "set_field ow k v' a"
    note IH = 2 [unfolded True]
    show ?thesis
    proof (cases "?a1 = a")
      case same: True
      with IH True show ?thesis by auto
    next
      case False
      with set_field_cases [of ow k v' a]
      have w: "v' \<noteq> PNone" "ow \<or> in_empties (py_get a k)" "?a1 k = Some v'"
        by auto
      from IH have "state_of (run ow ws ?a1) k = Some v' \<or>
        (\<exists>v. Write k v \<in> set ws \<and> v \<noteq> PNone \<and> state_of (run ow ws ?a1) k = Some v)"
        using w(3) by auto
      with w(1,2) True show ?thesis by auto
    qed
  qed
next
  case (3 ow e ws a)
  then show ?case by simp
qed

lemma run_frame: "\<forall>v. Write k v \<notin> set ws \<Longrightarrow> state_of (run ow ws a) k = a k"
  using run_policy [of ow ws a k] by blast

lemma run_finish: "run ow ws a = finish ws (state_of (run ow ws a))"
  by (induction ow ws a rule: run.induct) simp_all

lemma run_settled:
  "(\<And>k v. (k, v) \<in> set (performed ws) \<Longrightarrow> set_field ow k v a = a) \<Longrightarrow> run ow ws a = finish ws a"
  by (induction ow ws a rule: run.induct) simp_all

lemma set_field_fixed:
  "(set_field False k v a = a) = (v = PNone \<or> \<not> in_empties (py_get a k) \<or> a k = Some v)"
  by (auto simp add: set_field_def fun_upd_idem_iff)

lemma settled_set_field:
  assumes "settled W a" "functional (insert (k, v) W)"
  shows "settled (insert (k, v) W) (set_field False k v a)"
  unfolding settled_def
proof (clarify)
  fix k' v' assume kv: "(k', v') \<in> insert (k, v) W"
  show "set_field False k' v' (set_field False k v a) = set_field False k v a"
  proof (cases "k' = k")
    case True
    with kv assms(2) have "v' = v" by (auto simp add: functional_def)
    with True show ?thesis
      unfolding set_field_fixed by (simp add: set_field_def py_get_def)
  next
    case False
    with kv have "(k', v') \<in> W" by simp
    with assms(1) have "set_field False k' v' a = a" by (auto simp add: settled_def)
    with False show ?thesis
      unfolding set_field_fixed by (simp add: set_field_other py_get_set_field_other)
  qed
qed

lemma run_settles:
  "settled W a \<Longrightarrow> functional (W \<union> set (performed ws)) \<Longrightarrow>
   settled (W \<union> set (performed ws)) (state_of (run False ws a))"
proof (induction ws arbitrary: W a)
  case Nil
  then show ?case by simp
next
  case (Cons x ws)
  show ?case
  proof (cases x)
    case (Write k v)
    from Cons.prems have f: "functional (insert (k, v) W \<union> set (performed ws))"
      by (simp add: Write)
    then have "functional (insert (k, v) W)" by (auto simp add: functional_def)
    with Cons.prems(1) have "settled (insert (k, v) W) (set_field False k v a)"
      by (rule settled_set_field)
    from Cons.IH [OF this f] show ?thesis by (simp add: Write)
  next
    case (Fail e)
    with Cons.prems show ?thesis by simp
  qed
qed

lemma run_idempotent:
  assumes "functional (set (performed ws))"
  shows "run False ws (state_of (run False ws a)) = run False ws a"
proof -
  have "settled {} a" by (simp add: settled_def)
  from run_settles [OF this, of ws] assms
  have "settled (set (performed ws)) (state_of (run False ws a))" by simp
  then have "run False ws (state_of (run False ws a)) = finish ws (state_of (run False ws a))"
    by (intro run_settled) (auto simp add: settled_def)
  also have "\<dots> = run False ws a" by (rule run_finish [symmetric])
  finally show ?thesis .
qed



lemma run_exact:
  "\<forall>v. (k, v) \<in> set (performed ws) \<longrightarrow> v = c \<Longrightarrow>
   state_of (run ow ws a) k =
     (if (k, c) \<in> set (performed ws) \<and> c \<noteq> PNone \<and> (ow \<or> in_empties (py_get a k))
      then Some c else a k)"
proof (induction ws arbitrary: a)
  case Nil
  show ?case by simp
next
  case (Cons x ws)
  show ?case
  proof (cases x)
    case (Fail e)
    then show ?thesis by simp
  next
    case (Write k' v')
    let ?a1 = "set_field ow k' v' a"
    from Cons.prems have rest: "\<forall>v. (k, v) \<in> set (performed ws) \<longrightarrow> v = c"
      by (simp add: Write)
    have IH: "state_of (run ow ws ?a1) k =
      (if (k, c) \<in> set (performed ws) \<and> c \<noteq> PNone \<and> (ow \<or> in_empties (py_get ?a1 k))
       then Some c else ?a1 k)"
      by (rule Cons.IH [OF rest])
    show ?thesis
    proof (cases "k' = k")
      case False
      then have same: "?a1 k = a k" "py_get ?a1 k = py_get a k"
        by (simp_all add: set_field_other py_get_set_field_other)
      have "state_of (run ow (x # ws) a) k = state_of (run ow ws ?a1) k"
        by (simp add: Write)
      also note IH [unfolded same]
      finally show ?thesis using False by (simp add: Write)
    next
      case True
      with Cons.prems have v': "v' = c" by (simp add: Write)
      have a1: "?a1 = (if c \<noteq> PNone \<and> (ow \<or> in_empties (py_get a k)) then a(k \<mapsto> c) else a)"
        by (simp add: set_field_def True v')
      show ?thesis
      proof (cases "c \<noteq> PNone \<and> (ow \<or> in_empties (py_get a k))")
        case yes: True
        with a1 have "?a1 k = Some c" by simp
        with IH have "state_of (run ow ws ?a1) k = Some c" by simp
        with yes show ?thesis by (simp add: Write True v')
      next
        case no: False
        with a1 have same: "?a1 = a" by simp
        from IH [unfolded same] no have "state_of (run ow ws a) k = a k" by auto
        with no same show ?thesis by (auto simp add: Write True v')
      qed
    qed
  qed
qed

lemma performed_subset: "(k, v) \<in> set (performed ws) \<Longrightarrow> Write k v \<in> set ws"
  by (induction ws rule: performed.induct) auto

lemma performed_append_subset:
  "set (performed (xs @ ys)) \<subseteq> set (performed xs) \<union> set (performed ys)"
  by (induction xs rule: performed.induct) auto

lemma performed_append_left: "set (performed xs) \<subseteq> set (performed (xs @ ys))"
  by (induction xs rule: performed.induct) auto

lemma performed_append:
  "\<forall>e. Fail e \<notin> set xs \<Longrightarrow> performed (xs @ ys) = performed xs @ performed ys"
  by (induction xs rule: performed.induct) auto

lemma run_Returned_no_Fail: "run ow ws a = Returned a' \<Longrightarrow> Fail e \<notin> set ws"
  by (induction ow ws a rule: run.induct) auto

lemma performed_no_Fail:
  "\<forall>e. Fail e \<notin> set ws \<Longrightarrow> ((k, v) \<in> set (performed ws)) = (Write k v \<in> set ws)"
  by (induction ws rule: performed.induct) auto

subsection \<open>The writes of the plan are the candidates\<close>

lemma candidate_keys:
  "candidate mb ''id_author'' = dict_get mb ''id''"
  "candidate mb ''name'' = dict_get mb ''name''"
  "candidate mb ''gender'' = (case dict_get mb ''gender'' of PStr g \<Rightarrow> normalized g | _ \<Rightarrow> PNone)"
  "candidate mb ''birth_date'' =
     (case life_span_of mb of Some ls \<Rightarrow> dict_get ls ''begin'' | None \<Rightarrow> PNone)"
  "candidate mb ''active_start'' =
     (case life_span_of mb of Some ls \<Rightarrow> dict_get ls ''begin'' | None \<Rightarrow> PNone)"
  "candidate mb ''active_end'' =
     (case life_span_of mb of
        Some ls \<Rightarrow> if in_still_active (dict_get ls ''ended'') then PNone else dict_get ls ''ended''
      | None \<Rightarrow> PNone)"
  "candidate mb ''country'' =
     (case map_of mb ''area'' of Some (PDict a) \<Rightarrow> dict_get a ''name'' | _ \<Rightarrow> PNone)"
  "candidate mb ''birth_place'' =
     (case map_of mb ''begin-area'' of Some (PDict a) \<Rightarrow> dict_get a ''name'' | _ \<Rightarrow> PNone)"
  "candidate mb ''description'' = tags_text mb"
  "candidate mb ''nationality'' = (if has_it_alias mb then PStr ''Italia'' else PNone)"
  by (simp_all add: candidate_def)

lemma plan_basic_writes:
  assumes "Write k v \<in> set (plan_basic mb)"
  shows "(k = ''id_author'' \<or> k = ''name'') \<and> v = candidate mb k"
proof -
  from assms have "(k = ''id_author'' \<and> v = dict_get mb ''id'') \<or> (k = ''name'' \<and> v = dict_get mb ''name'')"
    by (auto simp add: plan_basic_def)
  then show ?thesis by (auto simp add: candidate_keys)
qed

lemma plan_gender_writes:
  assumes "Write k v \<in> set (plan_gender mb)"
  shows "k = ''gender'' \<and> v = candidate mb k"
proof -
  from assms obtain g where "dict_get mb ''gender'' = PStr g" "k = ''gender''" "v = normalized g"
    by (auto simp add: plan_gender_def Let_def split: if_splits pyval.splits)
  then show ?thesis by (simp add: candidate_keys)
qed

lemma plan_life_span_writes:
  assumes "Write k v \<in> set (plan_life_span mb)"
  shows "(k = ''birth_date'' \<or> k = ''active_start'' \<or> k = ''active_end'') \<and> v = candidate mb k"
proof -
  from assms obtain ls where ls: "life_span_of mb = Some ls"
    and w: "Write k v \<in> set ([Write ''birth_date'' (dict_get ls ''begin''),
             Write ''active_start'' (dict_get ls ''begin'')]
          @ (if \<not> in_still_active (dict_get ls ''ended'')
             then [Write ''active_end'' (dict_get ls ''ended'')] else []))"
    by (auto simp add: plan_life_span_def split: option.splits)
  from w have "(k = ''birth_date'' \<and> v = dict_get ls ''begin'')
      \<or> (k = ''active_start'' \<and> v = dict_get ls ''begin'')
      \<or> (k = ''active_end'' \<and> \<not> in_still_active (dict_get ls ''ended'') \<and> v = dict_get ls ''ended'')"
    by (auto split: if_splits)
  with ls show ?thesis by (auto simp add: candidate_keys)
qed

lemma plan_area_writes:
  assumes "Write k v \<in> set (plan_area mb)"
  shows "k = ''country'' \<and> v = candidate mb k"
proof (cases "map_of mb ''area''")
  case None
  with assms show ?thesis by (simp add: plan_area_def)
next
  case (Some x)
  with assms show ?thesis by (cases x) (simp_all add: plan_area_def candidate_keys)
qed

lemma plan_begin_area_writes:
  assumes "Write k v \<in> set (plan_begin_area mb)"
  shows "k = ''birth_place'' \<and> v = candidate mb k"
proof (cases "map_of mb ''begin-area''")
  case None
  with assms show ?thesis by (simp add: plan_begin_area_def)
next
  case (Some x)
  with assms show ?thesis by (cases x) (simp_all add: plan_begin_area_def candidate_keys)
qed

lemma plan_description_tags: "plan_description mb =
    (case map_of mb ''tag-list'' of
        None \<Rightarrow> []
      | Some tag_list \<Rightarrow>
          (case py_iter tag_list of
             Inl e \<Rightarrow> [Fail e]
           | Inr items \<Rightarrow>
               (case tag_names items of
                  Inl e \<Rightarrow> [Fail e]
                | Inr tags \<Rightarrow>
                    if tags \<noteq> []
                    then (case py_join '', '' tags of
                            Inl e \<Rightarrow> [Fail e]
                          | Inr d \<Rightarrow> [Write ''description'' (tags_text mb)])
                    else [])))"
  by (simp add: plan_description_def tags_text_def split: option.splits sum.splits)

lemma plan_description_writes:
  assumes "Write k v \<in> set (plan_description mb)"
  shows "k = ''description'' \<and> v = candidate mb k"
proof (cases "map_of mb ''tag-list''")
  case None
  with assms show ?thesis by (simp add: plan_description_tags)
next
  case (Some tag_list)
  note tl = this
  show ?thesis
  proof (cases "py_iter tag_list")
    case (Inl e)
    with assms tl show ?thesis by (simp add: plan_description_tags)
  next
    case (Inr items)
    note it = this
    show ?thesis
    proof (cases "tag_names items")
      case (Inl e)
      with assms tl it show ?thesis by (simp add: plan_description_tags)
    next
      case (Inr tags)
      with assms tl it show ?thesis
        by (cases "py_join '', '' tags"; cases "tags = []")
           (simp_all add: plan_description_tags candidate_keys)
    qed
  qed
qed

lemma plan_aliases_step:
  assumes "Write k v \<in> set (plan_aliases (a # rest))"
  shows "(k = ''nationality'' \<and> v = PStr ''Italia'' \<and> it_alias a)
         \<or> Write k v \<in> set (plan_aliases rest)"
proof (cases "attr_get_default a ''locale'' (PStr [])")
  case (Inl e)
  with assms show ?thesis by simp
next
  case (Inr loc)
  with assms show ?thesis
    by (cases loc) (auto simp add: it_alias_def split: if_splits)
qed

lemma plan_aliases_writes:
  "Write k v \<in> set (plan_aliases items) \<Longrightarrow>
     k = ''nationality'' \<and> v = PStr ''Italia'' \<and> list_ex it_alias items"
proof (induction items)
  case Nil
  then show ?case by simp
next
  case (Cons a rest)
  from plan_aliases_step [OF Cons.prems] Cons.IH show ?case by auto
qed

lemma plan_nationality_writes:
  assumes "Write k v \<in> set (plan_nationality mb)"
  shows "k = ''nationality'' \<and> v = candidate mb k"
proof -
  from assms obtain items where "py_iter (dict_get_default mb ''alias-list'' (PList [])) = Inr items"
      "Write k v \<in> set (plan_aliases items)"
    by (auto simp add: plan_nationality_def split: sum.splits)
  with plan_aliases_writes [of k v items] show ?thesis
    by (simp add: candidate_keys has_it_alias_def)
qed


lemma plan_writes:
  assumes "Write k v \<in> set (plan mb)"
  shows "v = candidate mb k"
proof -
  from assms have "Write k v \<in> set (plan_basic mb) \<or> Write k v \<in> set (plan_gender mb)
      \<or> Write k v \<in> set (plan_life_span mb) \<or> Write k v \<in> set (plan_area mb)
      \<or> Write k v \<in> set (plan_begin_area mb) \<or> Write k v \<in> set (plan_description mb)
      \<or> Write k v \<in> set (plan_nationality mb)"
    by (simp add: plan_def)
  then show ?thesis
  proof (elim disjE)
    assume "Write k v \<in> set (plan_basic mb)"
    from plan_basic_writes [OF this] show ?thesis by (rule conjunct2)
  next
    assume "Write k v \<in> set (plan_gender mb)"
    from plan_gender_writes [OF this] show ?thesis by (rule conjunct2)
  next
    assume "Write k v \<in> set (plan_life_span mb)"
    from plan_life_span_writes [OF this] show ?thesis by (rule conjunct2)
  next
    assume "Write k v \<in> set (plan_area mb)"
    from plan_area_writes [OF this] show ?thesis by (rule conjunct2)
  next
    assume "Write k v \<in> set (plan_begin_area mb)"
    from plan_begin_area_writes [OF this] show ?thesis by (rule conjunct2)
  next
    assume "Write k v \<in> set (plan_description mb)"
    from plan_description_writes [OF this] show ?thesis by (rule conjunct2)
  next
    assume "Write k v \<in> set (plan_nationality mb)"
    from plan_nationality_writes [OF this] show ?thesis by (rule conjunct2)
  qed
qed

lemma plan_functional: "functional (set (performed (plan mb)))"
  unfolding functional_def
proof (intro allI impI)
  fix k v v'
  assume "(k, v) \<in> set (performed (plan mb))" and "(k, v') \<in> set (performed (plan mb))"
  then have "v = candidate mb k" and "v' = candidate mb k"
    by (simp_all only: plan_writes [OF performed_subset])
  then show "v = v'" by simp
qed

lemma merge_policy:
  "state_of (update_artist_from_mb a mb ow) k = a k \<or>
   (candidate mb k \<noteq> PNone \<and> policy_permits ow a k \<and>
    state_of (update_artist_from_mb a mb ow) k = Some (candidate mb k))"
proof (cases "state_of (run ow (plan mb) a) k = a k")
  case True
  then show ?thesis by (simp add: update_run)
next
  case False
  with run_policy [of ow "plan mb" a k] obtain v where w: "Write k v \<in> set (plan mb)"
    and v: "v \<noteq> PNone" "ow \<or> in_empties (py_get a k)" "state_of (run ow (plan mb) a) k = Some v"
    by auto
  from plan_writes [OF w] v show ?thesis
    by (simp add: update_run policy_permits_def)
qed

lemma plan_key_functional: "\<forall>v. (k, v) \<in> set (performed (plan mb)) \<longrightarrow> v = candidate mb k"
proof (intro allI impI)
  fix v assume "(k, v) \<in> set (performed (plan mb))"
  then show "v = candidate mb k" by (rule plan_writes [OF performed_subset])
qed

lemma merge_exact:
  "state_of (update_artist_from_mb a mb ow) k =
     (if (k, candidate mb k) \<in> set (performed (plan mb)) \<and> candidate mb k \<noteq> PNone
         \<and> policy_permits ow a k
      then Some (candidate mb k) else a k)"
  unfolding update_run policy_permits_def by (rule run_exact [OF plan_key_functional])

lemma plan_basic_no_Fail: "\<forall>e. Fail e \<notin> set (plan_basic mb)"
  by (simp add: plan_basic_def)

lemma gender_performed:
  assumes "candidate mb ''gender'' \<noteq> PNone"
  shows "(''gender'', candidate mb ''gender'') \<in> set (performed (plan mb))"
proof -
  from assms obtain g where g: "dict_get mb ''gender'' = PStr g" "normalized g \<noteq> PNone"
    by (cases "dict_get mb ''gender''") (simp_all add: candidate_keys)
  then have "g \<noteq> []" by (auto simp add: normalized_def lower_def)
  with g have "plan_gender mb = [Write ''gender'' (candidate mb ''gender'')]"
    by (simp add: plan_gender_def candidate_keys)
  then have "(''gender'', candidate mb ''gender'') \<in> set (performed (plan_gender mb))"
    by simp
  then have "(''gender'', candidate mb ''gender'') \<in> set (performed (plan_gender mb @
      plan_life_span mb @ plan_area mb @ plan_begin_area mb @ plan_description mb @ plan_nationality mb))"
    using performed_append_left by blast
  then show ?thesis
    by (simp add: plan_def performed_append [OF plan_basic_no_Fail])
qed

lemma gender_exact:
  "state_of (update_artist_from_mb a mb ow) ''gender'' =
     (if candidate mb ''gender'' \<noteq> PNone \<and> policy_permits ow a ''gender''
      then Some (candidate mb ''gender'') else a ''gender'')"
  using gender_performed [of mb] by (auto simp add: merge_exact)

lemma plan_aliases_it:
  "\<forall>e. Fail e \<notin> set (plan_aliases items) \<Longrightarrow> list_ex it_alias items \<Longrightarrow>
   Write ''nationality'' (PStr ''Italia'') \<in> set (plan_aliases items)"
proof (induction items)
  case Nil
  then show ?case by simp
next
  case (Cons a rest)
  show ?case
  proof (cases "attr_get_default a ''locale'' (PStr [])")
    case (Inl e)
    with Cons.prems show ?thesis by simp
  next
    case (Inr loc)
    note loc = this
    show ?thesis
    proof (cases loc)
      case (PStr s)
      with loc have a: "it_alias a = startswith s ''it''" by (simp add: it_alias_def)
      from loc PStr Cons.prems(1) have nf: "\<forall>e. Fail e \<notin> set (plan_aliases rest)"
        by simp
      show ?thesis
      proof (cases "startswith s ''it''")
        case True
        with loc PStr show ?thesis by simp
      next
        case False
        with a Cons.prems(2) have "list_ex it_alias rest" by simp
        from Cons.IH [OF nf this] loc PStr show ?thesis by simp
      qed
    qed (use loc Cons.prems in simp_all)
  qed
qed

lemma nationality_written:
  assumes "update_artist_from_mb a mb ow = Returned a'" and "has_it_alias mb"
  shows "(''nationality'', candidate mb ''nationality'') \<in> set (performed (plan mb))"
proof -
  from assms(1) have nf: "\<forall>e. Fail e \<notin> set (plan mb)"
    unfolding update_run using run_Returned_no_Fail by blast
  from assms(2) obtain items where
    items: "py_iter (dict_get_default mb ''alias-list'' (PList [])) = Inr items" "list_ex it_alias items"
    by (auto simp add: has_it_alias_def split: sum.splits)
  then have pn: "plan_nationality mb = plan_aliases items" by (simp add: plan_nationality_def)
  with nf have "\<forall>e. Fail e \<notin> set (plan_aliases items)" by (simp add: plan_def)
  from plan_aliases_it [OF this items(2)] pn
  have "Write ''nationality'' (PStr ''Italia'') \<in> set (plan mb)" by (simp add: plan_def)
  with assms(2) show ?thesis
    by (simp add: performed_no_Fail [OF nf] candidate_keys)
qed

subsection \<open>The claims\<close>

text \<open>
  Claim C1. With \<^verbatim>\<open>overwrite=False\<close>, a field of the local record that holds a value
  other than \<^verbatim>\<open>None\<close>, the empty string and the empty list holds the same value
  after the call, whatever the external record is and however the call ends (the record
  is mutated in place, so it is observed after an exception too). This holds for every
  key, target field or not.
\<close>

theorem merge_keeps_nonempty_field:
  assumes "artist key = Some v" and "v \<noteq> PNone" and "v \<noteq> PStr []" and "v \<noteq> PList []"
  shows "state_of (update_artist_from_mb artist mb False) key = Some v"
proof -
  from assms have "\<not> policy_permits False artist key"
    by (simp add: policy_permits_def py_get_def in_empties_def)
  with merge_policy [of artist mb False key] assms(1) show ?thesis by simp
qed

theorem merge_keeps_nonempty_field_witness:
  "state_of (update_artist_from_mb [''name'' \<mapsto> PStr ''Verdi'']
      [(''name'', PStr ''Giuseppe Verdi''), (''tag-list'', PList [PDict []])] False) ''name''
   = Some (PStr ''Verdi'')"
  using merge_keeps_nonempty_field [of "[''name'' \<mapsto> PStr ''Verdi'']" "''name''" "PStr ''Verdi''"
      "[(''name'', PStr ''Giuseppe Verdi''), (''tag-list'', PList [PDict []])]"]
  by simp

text \<open>
  Claim C2. Merging the same external record a second time with \<^verbatim>\<open>overwrite=False\<close>
  changes nothing: the second call ends as the first did, with the same local record.
\<close>

theorem merge_idempotent:
  "update_artist_from_mb (state_of (update_artist_from_mb artist mb False)) mb False
     = update_artist_from_mb artist mb False"
  unfolding update_run by (rule run_idempotent [OF plan_functional])

theorem merge_idempotent_witness:
  "update_artist_from_mb
     (state_of (update_artist_from_mb [''name'' \<mapsto> PStr []]
        [(''name'', PStr ''Verdi''), (''gender'', PStr ''male'')] False))
     [(''name'', PStr ''Verdi''), (''gender'', PStr ''male'')] False
   = Returned [''name'' \<mapsto> PStr ''Verdi'', ''gender'' \<mapsto> PStr ''M'']"
proof -
  have once: "update_artist_from_mb [''name'' \<mapsto> PStr []]
        [(''name'', PStr ''Verdi''), (''gender'', PStr ''male'')] False
      = Returned [''name'' \<mapsto> PStr ''Verdi'', ''gender'' \<mapsto> PStr ''M'']"
    by (simp add: merge_defs)
  from merge_idempotent [of "[''name'' \<mapsto> PStr []]"
      "[(''name'', PStr ''Verdi''), (''gender'', PStr ''male'')]"]
  show ?thesis unfolding once .
qed

text \<open>
  Claim C4. The merge does raise: a tag without a \<^verbatim>\<open>"name"\<close> key is subscripted,
  not read with \<^verbatim>\<open>get\<close>, and the \<^verbatim>\<open>KeyError\<close> leaves the function. Missing
  \<^verbatim>\<open>"life-span"\<close>, and a missing \<^verbatim>\<open>"name"\<close> in an area, are skipped.
\<close>

theorem merge_tag_without_name_raises:
  "update_artist_from_mb Map.empty [(''tag-list'', PList [PDict [(''count'', PStr ''1'')]])] False
     = Raised KeyError Map.empty
   \<and> update_artist_from_mb Map.empty [(''area'', PDict [])] False = Returned Map.empty
   \<and> update_artist_from_mb Map.empty [] False = Returned Map.empty"
  by (simp add: merge_defs)

text \<open>
  Claim C5. After a merge the field \<^verbatim>\<open>active_end\<close> either is as before, or holds the
  value of \<^verbatim>\<open>ended\<close> in the life span, and then that value is not the string
  \<^verbatim>\<open>"false"\<close>, not \<^verbatim>\<open>False\<close> and not absent. The two calls of the specification
  on an empty local record give the stated records (\<^verbatim>\<open>birth_date\<close> is filled from
  \<^verbatim>\<open>begin\<close> as well).
\<close>

theorem merge_active_end:
  "(state_of (update_artist_from_mb artist mb overwrite) ''active_end'' = artist ''active_end'' \<or>
    (\<exists>ls. life_span_of mb = Some ls \<and>
          dict_get ls ''ended'' \<noteq> PStr ''false'' \<and> dict_get ls ''ended'' \<noteq> PBool False \<and>
          dict_get ls ''ended'' \<noteq> PNone \<and>
          state_of (update_artist_from_mb artist mb overwrite) ''active_end''
            = Some (dict_get ls ''ended'')))
   \<and> update_artist_from_mb Map.empty
         [(''life-span'', PDict [(''begin'', PStr ''1990''), (''ended'', PStr ''false'')])] False
       = Returned [''birth_date'' \<mapsto> PStr ''1990'', ''active_start'' \<mapsto> PStr ''1990'']
   \<and> update_artist_from_mb Map.empty
         [(''life-span'', PDict [(''begin'', PStr ''1990''), (''ended'', PStr ''2020'')])] False
       = Returned [''birth_date'' \<mapsto> PStr ''1990'', ''active_start'' \<mapsto> PStr ''1990'',
                   ''active_end'' \<mapsto> PStr ''2020'']"
proof (intro conjI)
  show "state_of (update_artist_from_mb artist mb overwrite) ''active_end'' = artist ''active_end'' \<or>
    (\<exists>ls. life_span_of mb = Some ls \<and>
          dict_get ls ''ended'' \<noteq> PStr ''false'' \<and> dict_get ls ''ended'' \<noteq> PBool False \<and>
          dict_get ls ''ended'' \<noteq> PNone \<and>
          state_of (update_artist_from_mb artist mb overwrite) ''active_end''
            = Some (dict_get ls ''ended''))"
  proof (cases "candidate mb ''active_end'' = PNone")
    case True
    with merge_policy [of artist mb overwrite "''active_end''"] show ?thesis by simp
  next
    case False
    then obtain ls where ls: "life_span_of mb = Some ls" "\<not> in_still_active (dict_get ls ''ended'')"
        "candidate mb ''active_end'' = dict_get ls ''ended''"
      by (cases "life_span_of mb") (simp_all add: candidate_keys split: if_splits)
    from ls(2) have "dict_get ls ''ended'' \<noteq> PStr ''false''" "dict_get ls ''ended'' \<noteq> PBool False"
        "dict_get ls ''ended'' \<noteq> PNone"
      by (simp_all add: in_still_active_def)
    with merge_policy [of artist mb overwrite "''active_end''"] ls(1,3) show ?thesis by auto
  qed
qed (simp_all add: merge_defs)

theorem merge_active_end_witness:
  "state_of (update_artist_from_mb [''active_end'' \<mapsto> PStr ''2001'']
      [(''life-span'', PDict [(''begin'', PStr ''1990''), (''ended'', PBool False)])] True) ''active_end''
   = Some (PStr ''2001'')"
proof -
  have "life_span_of [(''life-span'', PDict [(''begin'', PStr ''1990''), (''ended'', PBool False)])]
      = Some [(''begin'', PStr ''1990''), (''ended'', PBool False)]"
    by (simp add: life_span_of_def dict_get_default_def)
  with merge_active_end [of "[''active_end'' \<mapsto> PStr ''2001'']"
      "[(''life-span'', PDict [(''begin'', PStr ''1990''), (''ended'', PBool False)])]" True]
  show ?thesis by (simp add: dict_get_def dict_get_default_def)
qed

text \<open>
  Claim C6. The gender field after a merge: a string that lower-cases to \<^verbatim>\<open>male\<close>
  gives \<^verbatim>\<open>M\<close> and one that lower-cases to \<^verbatim>\<open>female\<close> gives \<^verbatim>\<open>F\<close>, where
  the field-set policy permits the write; any other external value leaves the field as
  it was, with or without overwrite. The three calls of the specification give the
  stated records.
\<close>

theorem merge_gender:
  "state_of (update_artist_from_mb artist mb overwrite) ''gender'' =
     (case dict_get mb ''gender'' of
        PStr g \<Rightarrow>
          if lower g = ''male''
          then (if policy_permits overwrite artist ''gender'' then Some (PStr ''M'')
                else artist ''gender'')
          else if lower g = ''female''
          then (if policy_permits overwrite artist ''gender'' then Some (PStr ''F'')
                else artist ''gender'')
          else artist ''gender''
      | _ \<Rightarrow> artist ''gender'')
   \<and> update_artist_from_mb Map.empty [(''gender'', PStr ''Male'')] False
       = Returned [''gender'' \<mapsto> PStr ''M'']
   \<and> update_artist_from_mb Map.empty [(''gender'', PStr ''Female'')] False
       = Returned [''gender'' \<mapsto> PStr ''F'']
   \<and> update_artist_from_mb Map.empty [(''gender'', PStr ''Other'')] False = Returned Map.empty"
proof (intro conjI)
  show "state_of (update_artist_from_mb artist mb overwrite) ''gender'' =
     (case dict_get mb ''gender'' of
        PStr g \<Rightarrow>
          if lower g = ''male''
          then (if policy_permits overwrite artist ''gender'' then Some (PStr ''M'')
                else artist ''gender'')
          else if lower g = ''female''
          then (if policy_permits overwrite artist ''gender'' then Some (PStr ''F'')
                else artist ''gender'')
          else artist ''gender''
      | _ \<Rightarrow> artist ''gender'')"
    unfolding gender_exact
    by (cases "dict_get mb ''gender''") (simp_all add: candidate_keys normalized_def)
qed (simp_all add: merge_defs)

theorem merge_gender_witness:
  "state_of (update_artist_from_mb [''gender'' \<mapsto> PStr ''F'']
      [(''gender'', PStr ''MALE''), (''area'', PInt 3)] True) ''gender'' = Some (PStr ''M'')
   \<and> state_of (update_artist_from_mb [''gender'' \<mapsto> PStr ''F'']
      [(''gender'', PStr ''unknown'')] True) ''gender'' = Some (PStr ''F'')"
  using merge_gender [of "[''gender'' \<mapsto> PStr ''F'']" "[(''gender'', PStr ''MALE''), (''area'', PInt 3)]" True]
    merge_gender [of "[''gender'' \<mapsto> PStr ''F'']" "[(''gender'', PStr ''unknown'')]" True]
  by (simp add: dict_get_def dict_get_default_def lower_def lower_char_def policy_permits_def)

text \<open>
  Claim C7. For every key, the local field after a merge is either unchanged or holds the
  candidate derived from the external record, and the latter only when the candidate is
  not null and the policy permits the write (overwrite is set, or the field was empty).
  In particular a field without candidate is never changed.
\<close>

theorem merge_only_candidates:
  "(state_of (update_artist_from_mb artist mb overwrite) key = artist key \<or>
    (candidate mb key \<noteq> PNone \<and> policy_permits overwrite artist key \<and>
     state_of (update_artist_from_mb artist mb overwrite) key = Some (candidate mb key)))
   \<and> (candidate mb key = PNone \<longrightarrow>
        state_of (update_artist_from_mb artist mb overwrite) key = artist key)"
  using merge_policy [of artist mb overwrite key] by auto

theorem merge_only_candidates_witness:
  "candidate [(''name'', PStr ''Verdi''), (''gender'', PStr ''Other'')] ''gender'' = PNone
   \<and> state_of (update_artist_from_mb [''gender'' \<mapsto> PStr ''F'']
        [(''name'', PStr ''Verdi''), (''gender'', PStr ''Other'')] True) ''gender''
       = Some (PStr ''F'')"
proof -
  have c: "candidate [(''name'', PStr ''Verdi''), (''gender'', PStr ''Other'')] ''gender'' = PNone"
    by (simp add: candidate_def dict_get_def dict_get_default_def normalized_def lower_def
        lower_char_def)
  from merge_only_candidates [of "[''gender'' \<mapsto> PStr ''F'']"
      "[(''name'', PStr ''Verdi''), (''gender'', PStr ''Other'')]" True "''gender''"] c
  show ?thesis by simp
qed

text \<open>
  What the alias loop does when it is reached. When the merge returns,
  \<^verbatim>\<open>nationality\<close> is \<^verbatim>\<open>"Italia"\<close> if some alias has a locale that starts with
  \<^verbatim>\<open>it\<close> and the policy permits the write, and is as before otherwise. When no alias
  has such a locale the field is untouched however the call ends. The two calls of the
  specification give the stated records.
\<close>

lemma nationality_after_return:
  "(update_artist_from_mb artist mb overwrite = Returned artist' \<longrightarrow>
      artist' ''nationality'' =
        (if has_it_alias mb \<and> policy_permits overwrite artist ''nationality''
         then Some (PStr ''Italia'') else artist ''nationality''))
   \<and> (\<not> has_it_alias mb \<longrightarrow>
        state_of (update_artist_from_mb artist mb overwrite) ''nationality'' = artist ''nationality'')
   \<and> update_artist_from_mb Map.empty [(''alias-list'', PList [PDict [(''locale'', PStr ''it-IT'')]])] False
       = Returned [''nationality'' \<mapsto> PStr ''Italia'']
   \<and> update_artist_from_mb Map.empty [(''alias-list'', PList [PDict [(''locale'', PStr ''en'')]])] False
       = Returned Map.empty"
proof (intro conjI impI)
  assume r: "update_artist_from_mb artist mb overwrite = Returned artist'"
  show "artist' ''nationality'' =
        (if has_it_alias mb \<and> policy_permits overwrite artist ''nationality''
         then Some (PStr ''Italia'') else artist ''nationality'')"
  proof (cases "has_it_alias mb")
    case True
    from nationality_written [OF r True] True
      merge_exact [of artist mb overwrite "''nationality''"] r
    show ?thesis by (simp add: candidate_keys)
  next
    case False
    with merge_policy [of artist mb overwrite "''nationality''"] r
    show ?thesis by (simp add: candidate_keys)
  qed
next
  assume "\<not> has_it_alias mb"
  with merge_policy [of artist mb overwrite "''nationality''"]
  show "state_of (update_artist_from_mb artist mb overwrite) ''nationality'' = artist ''nationality''"
    by (simp add: candidate_keys)
qed (simp_all add: merge_defs)

text \<open>
  Claim C9. The nationality is not set whenever an alias has a locale that starts with
  \<^verbatim>\<open>it\<close> and the policy permits the write: the alias loop is the last part of the
  merge, and a tag without a \<^verbatim>\<open>"name"\<close> key raises \<^verbatim>\<open>KeyError\<close> before the loop
  is reached. On an empty local record and an external record with such a tag and the
  alias \<^verbatim>\<open>{"locale": "it"}\<close> the call raises and leaves \<^verbatim>\<open>nationality\<close> absent.
\<close>

theorem merge_nationality_lost_on_tag_error:
  "has_it_alias [(''tag-list'', PList [PDict [(''count'', PStr ''1'')]]),
                 (''alias-list'', PList [PDict [(''locale'', PStr ''it'')]])]
   \<and> policy_permits False Map.empty ''nationality''
   \<and> update_artist_from_mb Map.empty
         [(''tag-list'', PList [PDict [(''count'', PStr ''1'')]]),
          (''alias-list'', PList [PDict [(''locale'', PStr ''it'')]])] False
       = Raised KeyError Map.empty
   \<and> state_of (update_artist_from_mb Map.empty
         [(''tag-list'', PList [PDict [(''count'', PStr ''1'')]]),
          (''alias-list'', PList [PDict [(''locale'', PStr ''it'')]])] False) ''nationality''
       = None
   \<and> update_artist_from_mb Map.empty
         [(''alias-list'', PList [PDict [(''locale'', PStr ''it'')]])] False
       = Returned [''nationality'' \<mapsto> PStr ''Italia'']"
  by (simp add: merge_defs has_it_alias_def it_alias_def policy_permits_def)

end
